theory Spec2Isabelle
  imports Complex_Main
begin

section \<open>Data model\<close>

text \<open>
  The client is a set of React components. Each component's \<open>useState\<close> cells become the
  fields of a record, each \<open>async\<close> function becomes a function from the state before the
  call to the state after it, and everything the function does to the outside (alerts,
  console output, navigation, network requests) is appended to a trace of events.

  Strings are lists of 8-bit characters; a JavaScript \<open>number\<close> is an \<open>int\<close> where the
  interface counts and a \<open>rat\<close> elsewhere (no function below computes with them).
\<close>

record PerformanceStats =
  total_complaints_resolved :: int
  total_complaints_assigned :: int
  resolution_rate :: rat
  last_activity :: string

text \<open>The interface \<open>Employee\<close> of the login module. Field \<open>emp_id\<close> is the source's \<open>id\<close>.\<close>

record Employee =
  emp_id :: string
  emp_employee_id :: string
  emp_name :: string
  emp_email :: string
  emp_department :: string
  emp_contact_phone :: string
  emp_is_active :: bool
  emp_created_at :: string
  emp_performance_stats :: PerformanceStats

text \<open>The interface \<open>Complaint\<close> of the list screen.\<close>

record Complaint =
  c_id :: string
  c_title :: string
  c_description :: string
  c_citizen_name :: string
  c_citizen_phone :: string
  c_category :: string
  c_priority :: string
  c_status :: string
  c_color_code :: string
  c_location_address :: string
  c_citizen_image :: "string option"
  c_assigned_employee_name :: "string option"
  c_created_at :: string
  c_updated_at :: string

record ProgressPhoto =
  pp_image :: string
  pp_note :: "string option"
  pp_timestamp :: string
  pp_added_by :: string
  pp_employee_id :: string

text \<open>The interface \<open>ComplaintDetail\<close> of the detail screen.\<close>

record ComplaintDetail =
  cd_id :: string
  cd_title :: string
  cd_description :: string
  cd_citizen_name :: string
  cd_citizen_phone :: string
  cd_citizen_email :: "string option"
  cd_category :: string
  cd_priority :: string
  cd_status :: string
  cd_color_code :: string
  cd_location_address :: string
  cd_location_coordinates :: "(rat \<times> rat) option"
  cd_citizen_image :: "string option"
  cd_assigned_employee_id :: "string option"
  cd_assigned_employee_name :: "string option"
  cd_progress_photos :: "ProgressPhoto list"
  cd_created_at :: string
  cd_updated_at :: string

text \<open>The interface \<open>ProfileData\<close> of the profile screen.\<close>

record ProfileData =
  pd_id :: string
  pd_employee_id :: string
  pd_name :: string
  pd_email :: string
  pd_department :: string
  pd_contact_phone :: string
  pd_is_active :: bool
  pd_created_at :: string
  pd_performance_stats :: PerformanceStats

subsection \<open>Session state and persisted store\<close>

text \<open>The three state cells of \<open>AuthProvider\<close>; \<open>None\<close> is JavaScript's \<open>null\<close>.\<close>

record AuthState =
  employee :: "Employee option"
  token :: "string option"
  isLoading :: bool

text \<open>
  \<open>AsyncStorage\<close> holds strings. The entry \<open>employee_data\<close> is only ever handed to
  \<open>JSON.parse\<close>, so its text is kept by what \<open>JSON.parse\<close> makes of it: the empty
  string, a text that is not JSON (\<open>JSON.parse\<close> throws), or the JSON text of a value of
  the state cell's type \<open>Employee | null\<close> (\<open>Serialized None\<close> is the text \<open>null\<close>).
\<close>

datatype employee_text = EmptyText | Malformed | Serialized "Employee option"

record Storage =
  auth_token :: "string option"
  employee_data :: "employee_text option"

datatype js_error = SyntaxError

fun JSON_parse :: "employee_text \<Rightarrow> js_error + Employee option" where
  "JSON_parse EmptyText = Inl SyntaxError"
| "JSON_parse Malformed = Inl SyntaxError"
| "JSON_parse (Serialized v) = Inr v"

definition JSON_stringify :: "Employee \<Rightarrow> employee_text" where
  "JSON_stringify e = Serialized (Some e)"

text \<open>
  Every call of \<open>AsyncStorage\<close> is awaited inside a \<open>try\<close>: it may reject. Which calls
  reject is chosen by the environment; a rejected call leaves the store as it was.
\<close>

datatype storage_op = GetItem string | SetItem string | RemoveItem string

type_synonym faults = "storage_op \<Rightarrow> bool"

subsection \<open>Requests, responses and observable events\<close>

text \<open>The object literal handed to \<open>JSON.stringify\<close> as the request body.\<close>

datatype request_body =
    LoginBody string string
  | StatusBody string "string option" "string option"
  | PhotoBody string string string

record request =
  req_method :: string
  req_url :: string
  req_headers :: "(string \<times> string) list"
  req_body :: "request_body option"

datatype event =
    Alert string string
  | ConsoleLog string
  | ConsoleWarn string
  | ConsoleError string
  | RouterReplace string
  | RouterBack
  | Fetch request

text \<open>The outcome of \<open>response.json()\<close>: it throws on a body that is not JSON.\<close>

datatype 'a json_result = NotJSON | Parsed 'a

text \<open>
  The outcome of an awaited \<open>fetch\<close>: it rejects (no response), or resolves to a response
  with a status and a body. \<open>response.ok\<close> is the Fetch standard's: status 200 to 299.
\<close>

datatype 'a fetch_result = NetworkError | Response nat "'a json_result"

definition ok :: "nat \<Rightarrow> bool" where
  "ok status = (200 \<le> status \<and> status \<le> 299)"

text \<open>
  The login endpoint answers \<open>{access_token, employee}\<close> when \<open>response.ok\<close> and
  \<open>{detail}\<close> otherwise; \<open>login\<close> reads exactly these fields in the two branches, at the
  types of the state cells they are stored in. Only \<open>response.ok\<close> is tested by \<open>login\<close>,
  so the response is kept by that test.
\<close>

datatype login_data = LoginData (access_token: string) (data_employee: Employee)

datatype error_data = ErrorData (detail: "string option")

datatype login_response =
    NoResponse
  | Ok2xx "login_data json_result"
  | NotOk "error_data json_result"

record world =
  auth :: AuthState
  storage :: Storage
  trace :: "event list"

subsection \<open>JavaScript helpers\<close>

text \<open>\<open>!x\<close> for a value that is a string, \<open>null\<close> or \<open>undefined\<close>.\<close>

fun falsy :: "string option \<Rightarrow> bool" where
  "falsy None = True"
| "falsy (Some s) = (s = [])"

fun falsy_text :: "employee_text option \<Rightarrow> bool" where
  "falsy_text None = True"
| "falsy_text (Some EmptyText) = True"
| "falsy_text (Some _) = False"

text \<open>\<open>a || b\<close> for strings: \<open>b\<close> when \<open>a\<close> is \<open>undefined\<close> or empty.\<close>

fun or_else :: "string option \<Rightarrow> string \<Rightarrow> string" where
  "or_else None b = b"
| "or_else (Some a) b = (if a = [] then b else a)"

text \<open>
  A template literal prints \<open>undefined\<close> for an unset \<open>BACKEND_URL\<close>. It also prints
  \<open>auth.token\<close>, always behind a guard that leaves only a non-empty string.
\<close>

fun template :: "string option \<Rightarrow> string" where
  "template None = ''undefined''"
| "template (Some s) = s"

text \<open>
  \<open>String.prototype.trim\<close> on 8-bit characters: the white space and line terminators of
  ECMAScript below code 256 are TAB, LF, VT, FF, CR, SP and NBSP.
\<close>

definition is_ws :: "char \<Rightarrow> bool" where
  "is_ws c = (of_char c \<in> {9, 10, 11, 12, 13, 32, 160 :: nat})"

definition trim :: "string \<Rightarrow> string" where
  "trim s = rev (dropWhile is_ws (rev (dropWhile is_ws s)))"

definition emit :: "event \<Rightarrow> world \<Rightarrow> world" where
  "emit e w = w\<lparr>trace := trace w @ [e]\<rparr>"

definition setToken :: "string option \<Rightarrow> world \<Rightarrow> world" where
  "setToken t w = w\<lparr>auth := (auth w)\<lparr>token := t\<rparr>\<rparr>"

definition setEmployee :: "Employee option \<Rightarrow> world \<Rightarrow> world" where
  "setEmployee e w = w\<lparr>auth := (auth w)\<lparr>employee := e\<rparr>\<rparr>"

definition setIsLoading :: "bool \<Rightarrow> world \<Rightarrow> world" where
  "setIsLoading b w = w\<lparr>auth := (auth w)\<lparr>isLoading := b\<rparr>\<rparr>"

definition store_auth_token :: "string option \<Rightarrow> world \<Rightarrow> world" where
  "store_auth_token v w = w\<lparr>storage := (storage w)\<lparr>auth_token := v\<rparr>\<rparr>"

definition store_employee_data :: "employee_text option \<Rightarrow> world \<Rightarrow> world" where
  "store_employee_data v w = w\<lparr>storage := (storage w)\<lparr>employee_data := v\<rparr>\<rparr>"

definition bearer :: "string \<Rightarrow> (string \<times> string) list" where
  "bearer t = [(''Authorization'', ''Bearer '' @ t), (''Content-Type'', ''application/json'')]"

text \<open>The requests, the alerts and the navigations of a trace, in order.\<close>

fun requests :: "event list \<Rightarrow> request list" where
  "requests [] = []"
| "requests (Fetch r # es) = r # requests es"
| "requests (_ # es) = requests es"

fun alerts :: "event list \<Rightarrow> (string \<times> string) list" where
  "alerts [] = []"
| "alerts (Alert t m # es) = (t, m) # alerts es"
| "alerts (_ # es) = alerts es"

fun navigations :: "event list \<Rightarrow> event list" where
  "navigations [] = []"
| "navigations (RouterReplace r # es) = RouterReplace r # navigations es"
| "navigations (RouterBack # es) = RouterBack # navigations es"
| "navigations (_ # es) = navigations es"

section \<open>Session manager (\<open>AuthProvider\<close>)\<close>

text \<open>The state \<open>AuthProvider\<close> starts in: \<open>useState(null)\<close> twice and \<open>useState(true)\<close>.\<close>

definition initial_auth :: AuthState where
  "initial_auth = \<lparr>employee = None, token = None, isLoading = True\<rparr>"

text \<open>
  \<open>checkAuthStatus\<close>: both entries are read; when both are truthy the token is set and
  then the employee text is parsed and set. Any rejection or throw inside the \<open>try\<close> is
  logged by the \<open>catch\<close>; what was set before it stays set. \<open>finally\<close> ends the loading.
\<close>

definition checkAuthStatus :: "faults \<Rightarrow> world \<Rightarrow> world" where
  "checkAuthStatus flt w =
    (let caught = emit (ConsoleError ''Error checking auth status:'');
         w1 =
           (if flt (GetItem ''auth_token'') then caught w
            else if flt (GetItem ''employee_data'') then caught w
            else
              let storedToken = auth_token (storage w);
                  storedEmployee = employee_data (storage w)
              in if falsy storedToken \<or> falsy_text storedEmployee then w
                 else
                   (case storedEmployee of
                      None \<Rightarrow> w
                    | Some text \<Rightarrow>
                        (let w2 = setToken storedToken w
                         in case JSON_parse text of
                              Inl err \<Rightarrow> caught w2
                            | Inr v \<Rightarrow> setEmployee v w2)))
     in setIsLoading False w1)"

text \<open>The \<open>catch\<close> block of \<open>login\<close>.\<close>

definition login_catch :: "world \<Rightarrow> bool \<times> world" where
  "login_catch w =
    (False, emit (Alert ''Error'' ''Failed to connect to server'')
              (emit (ConsoleError ''Login error:'') w))"

text \<open>
  The \<open>try\<close> block of \<open>login\<close> with its \<open>catch\<close>. The console labels are the source's
  without their pictographs.
\<close>

definition login_try ::
    "string option \<Rightarrow> faults \<Rightarrow> login_response \<Rightarrow> string \<Rightarrow> string \<Rightarrow> world \<Rightarrow> bool \<times> world" where
  "login_try BACKEND_URL flt resp employeeId password w =
    (let w1 = setIsLoading True w;
         w2 = emit (ConsoleLog ''Sending login to:'') w1;
         w3 = emit (ConsoleLog ''Request body:'') w2;
         w4 = emit (Fetch \<lparr>req_method = ''POST'',
                           req_url = template BACKEND_URL @ ''/api/auth/login'',
                           req_headers = [(''Content-Type'', ''application/json'')],
                           req_body = Some (LoginBody employeeId password)\<rparr>) w3
     in case resp of
          NoResponse \<Rightarrow> login_catch w4
        | Ok2xx b \<Rightarrow>
            (let w5 = emit (ConsoleLog ''Received response status:'') w4
             in case b of
                  NotJSON \<Rightarrow> login_catch w5
                | Parsed data \<Rightarrow>
                    (let w6 = emit (ConsoleLog ''Login successful:'') w5;
                         w7 = setToken (Some (access_token data)) w6;
                         w8 = setEmployee (Some (data_employee data)) w7
                     in if flt (SetItem ''auth_token'') then login_catch w8
                        else
                          let w9 = store_auth_token (Some (access_token data)) w8
                          in if flt (SetItem ''employee_data'') then login_catch w9
                             else
                               let w10 = store_employee_data
                                           (Some (JSON_stringify (data_employee data))) w9
                               in (True, emit (RouterReplace ''/(tabs)/home'') w10)))
        | NotOk b \<Rightarrow>
            (let w5 = emit (ConsoleLog ''Received response status:'') w4
             in case b of
                  NotJSON \<Rightarrow> login_catch w5
                | Parsed errorData \<Rightarrow>
                    (let w6 = emit (ConsoleWarn ''Login failed response:'') w5
                     in (False,
                         emit (Alert ''Login Failed''
                                 (or_else (detail errorData) ''Invalid credentials'')) w6))))"

text \<open>\<open>login\<close>: the guard on \<open>BACKEND_URL\<close>, the \<open>try\<close>, and \<open>finally\<close>.\<close>

definition login ::
    "string option \<Rightarrow> faults \<Rightarrow> login_response \<Rightarrow> string \<Rightarrow> string \<Rightarrow> world \<Rightarrow> bool \<times> world" where
  "login BACKEND_URL flt resp employeeId password w =
    (if falsy BACKEND_URL
     then (False, emit (Alert ''Error'' ''Backend URL is not configured.'') w)
     else
       let (success, w1) = login_try BACKEND_URL flt resp employeeId password w
       in (success, setIsLoading False w1))"

text \<open>
  \<open>logout\<close>: the two removals, the two state updates and the navigation are all inside
  the \<open>try\<close>; the \<open>catch\<close> logs.
\<close>

definition logout :: "faults \<Rightarrow> world \<Rightarrow> world" where
  "logout flt w =
    (let caught = emit (ConsoleError ''Logout error:'')
     in if flt (RemoveItem ''auth_token'') then caught w
        else
          let w1 = store_auth_token None w
          in if flt (RemoveItem ''employee_data'') then caught w1
             else
               let w2 = store_employee_data None w1;
                   w3 = setToken None w2;
                   w4 = setEmployee None w3
               in emit (RouterReplace ''/'') w4)"

section \<open>Screen controllers\<close>

text \<open>
  Each screen reads \<open>auth\<close> from the context; its own state cells are a record. An
  un-awaited call (\<open>auth.logout()\<close>, \<open>fetchComplaint()\<close>) is run to its end where it is
  made: it writes other state cells than the \<open>finally\<close> of its caller does.
\<close>

subsection \<open>Complaint list (\<open>HomeScreen\<close>)\<close>

record HomeScreen =
  complaints :: "Complaint list"
  home_loading :: bool
  refreshing :: bool

definition fetchComplaints ::
    "string option \<Rightarrow> faults \<Rightarrow> Complaint list fetch_result \<Rightarrow> bool
      \<Rightarrow> HomeScreen \<times> world \<Rightarrow> HomeScreen \<times> world" where
  "fetchComplaints BACKEND_URL flt resp isRefresh sw =
    (let (scr, w) = sw
     in if falsy (token (auth w)) then (scr, w)
        else
          let scr1 = (if isRefresh then scr else scr\<lparr>home_loading := True\<rparr>);
              w1 = emit (Fetch \<lparr>req_method = ''GET'',
                                req_url = template BACKEND_URL @ ''/api/complaints'',
                                req_headers = bearer (template (token (auth w))),
                                req_body = None\<rparr>) w;
              caught = (\<lambda>v. emit (Alert ''Error'' ''Failed to load complaints'')
                              (emit (ConsoleError ''Error fetching complaints:'') v));
              (scr2, w2) =
                (case resp of
                   NetworkError \<Rightarrow> (scr1, caught w1)
                 | Response status body \<Rightarrow>
                     if ok status
                     then (case body of
                             NotJSON \<Rightarrow> (scr1, caught w1)
                           | Parsed data \<Rightarrow> (scr1\<lparr>complaints := data\<rparr>, w1))
                     else
                       let w3 = emit (ConsoleError ''Failed to fetch complaints:'') w1
                       in if status = 401
                          then (scr1, logout flt
                                        (emit (Alert ''Session Expired'' ''Please login again'') w3))
                          else (scr1, w3))
          in (scr2\<lparr>home_loading := False,
                   refreshing := (if isRefresh then False else refreshing scr2)\<rparr>, w2))"

subsection \<open>Complaint detail (\<open>ComplaintDetailScreen\<close>)\<close>

text \<open>\<open>route_id\<close> is the \<open>id\<close> of \<open>useLocalSearchParams\<close>.\<close>

record DetailScreen =
  route_id :: string
  complaint :: "ComplaintDetail option"
  detail_loading :: bool
  updating :: bool
  selectedImage :: "string option"
  showImageModal :: bool

definition fetchComplaint ::
    "string option \<Rightarrow> faults \<Rightarrow> ComplaintDetail fetch_result
      \<Rightarrow> DetailScreen \<times> world \<Rightarrow> DetailScreen \<times> world" where
  "fetchComplaint BACKEND_URL flt resp sw =
    (let (scr, w) = sw
     in if falsy (token (auth w)) \<or> route_id scr = [] then (scr, w)
        else
          let scr1 = scr\<lparr>detail_loading := True\<rparr>;
              w1 = emit (Fetch \<lparr>req_method = ''GET'',
                                req_url = template BACKEND_URL @ ''/api/complaints/'' @ route_id scr,
                                req_headers = bearer (template (token (auth w))),
                                req_body = None\<rparr>) w;
              caught = (\<lambda>v. emit (Alert ''Error'' ''Failed to load complaint details'')
                              (emit (ConsoleError ''Error fetching complaint:'') v));
              (scr2, w2) =
                (case resp of
                   NetworkError \<Rightarrow> (scr1, caught w1)
                 | Response status body \<Rightarrow>
                     if ok status
                     then (case body of
                             NotJSON \<Rightarrow> (scr1, caught w1)
                           | Parsed data \<Rightarrow> (scr1\<lparr>complaint := Some data\<rparr>, w1))
                     else
                       let w3 = emit (ConsoleError ''Failed to fetch complaint:'') w1
                       in if status = 401
                          then (scr1, logout flt
                                        (emit (Alert ''Session Expired'' ''Please login again'') w3))
                          else if status = 404
                          then (scr1, emit RouterBack
                                        (emit (Alert ''Not Found'' ''Complaint not found'') w3))
                          else (scr1, w3))
          in (scr2\<lparr>detail_loading := False\<rparr>, w2))"

text \<open>
  \<open>updateComplaintStatus\<close>: \<open>resp\<close> answers the \<open>PUT\<close> (its body is never read, so it has
  any type), \<open>refetch\<close> answers the \<open>GET\<close> of the \<open>fetchComplaint()\<close> that follows a
  success.
\<close>

definition updateComplaintStatus ::
    "string option \<Rightarrow> faults \<Rightarrow> 'b fetch_result \<Rightarrow> ComplaintDetail fetch_result \<Rightarrow> string
      \<Rightarrow> DetailScreen \<times> world \<Rightarrow> DetailScreen \<times> world" where
  "updateComplaintStatus BACKEND_URL flt resp refetch newStatus sw =
    (let (scr, w) = sw
     in case complaint scr of
          None \<Rightarrow> (scr, w)
        | Some c \<Rightarrow>
            if falsy (token (auth w)) then (scr, w)
            else
              let scr1 = scr\<lparr>updating := True\<rparr>;
                  w1 = emit (Fetch \<lparr>req_method = ''PUT'',
                                    req_url = template BACKEND_URL @ ''/api/complaints/'' @ cd_id c,
                                    req_headers = bearer (template (token (auth w))),
                                    req_body = Some (StatusBody newStatus
                                      (map_option emp_employee_id (employee (auth w)))
                                      (map_option emp_name (employee (auth w))))\<rparr>) w;
                  (scr2, w2) =
                    (case resp of
                       NetworkError \<Rightarrow>
                         (scr1, emit (Alert ''Error'' ''Failed to update complaint'')
                                  (emit (ConsoleError ''Error updating complaint:'') w1))
                     | Response status body \<Rightarrow>
                         if ok status
                         then fetchComplaint BACKEND_URL flt refetch
                                (scr1, emit (Alert ''Success''
                                               (''Complaint status updated to '' @ newStatus)) w1)
                         else (scr1, emit (Alert ''Error'' ''Failed to update complaint status'') w1))
              in (scr2\<lparr>updating := False\<rparr>, w2))"

definition uploadProgressPhoto ::
    "string option \<Rightarrow> faults \<Rightarrow> 'b fetch_result \<Rightarrow> ComplaintDetail fetch_result \<Rightarrow> string
      \<Rightarrow> DetailScreen \<times> world \<Rightarrow> DetailScreen \<times> world" where
  "uploadProgressPhoto BACKEND_URL flt resp refetch base64Image sw =
    (let (scr, w) = sw
     in case complaint scr of
          None \<Rightarrow> (scr, w)
        | Some c \<Rightarrow>
            if falsy (token (auth w)) then (scr, w)
            else
              let scr1 = scr\<lparr>updating := True\<rparr>;
                  w1 = emit (Fetch \<lparr>req_method = ''POST'',
                                    req_url = template BACKEND_URL @ ''/api/complaints/'' @ cd_id c
                                                @ ''/progress-photo'',
                                    req_headers = bearer (template (token (auth w))),
                                    req_body = Some (PhotoBody (cd_id c) base64Image
                                                       ''Progress update'')\<rparr>) w;
                  (scr2, w2) =
                    (case resp of
                       NetworkError \<Rightarrow>
                         (scr1, emit (Alert ''Error'' ''Failed to upload photo'')
                                  (emit (ConsoleError ''Error uploading photo:'') w1))
                     | Response status body \<Rightarrow>
                         if ok status
                         then fetchComplaint BACKEND_URL flt refetch
                                (scr1, emit (Alert ''Success''
                                               ''Progress photo added successfully'') w1)
                         else (scr1, emit (Alert ''Error'' ''Failed to upload progress photo'') w1))
              in (scr2\<lparr>updating := False\<rparr>, w2))"

subsection \<open>Profile (\<open>ProfileScreen\<close>)\<close>

record ProfileScreen =
  profileData :: "ProfileData option"
  profile_loading :: bool

definition fetchProfile ::
    "string option \<Rightarrow> faults \<Rightarrow> ProfileData fetch_result
      \<Rightarrow> ProfileScreen \<times> world \<Rightarrow> ProfileScreen \<times> world" where
  "fetchProfile BACKEND_URL flt resp sw =
    (let (scr, w) = sw
     in if falsy (token (auth w)) then (scr, w)
        else
          let scr1 = scr\<lparr>profile_loading := True\<rparr>;
              w1 = emit (Fetch \<lparr>req_method = ''GET'',
                                req_url = template BACKEND_URL @ ''/api/profile'',
                                req_headers = bearer (template (token (auth w))),
                                req_body = None\<rparr>) w;
              caught = (\<lambda>v. emit (Alert ''Error'' ''Failed to load profile data'')
                              (emit (ConsoleError ''Error fetching profile:'') v));
              (scr2, w2) =
                (case resp of
                   NetworkError \<Rightarrow> (scr1, caught w1)
                 | Response status body \<Rightarrow>
                     if ok status
                     then (case body of
                             NotJSON \<Rightarrow> (scr1, caught w1)
                           | Parsed data \<Rightarrow> (scr1\<lparr>profileData := Some data\<rparr>, w1))
                     else
                       let w3 = emit (ConsoleError ''Failed to fetch profile:'') w1
                       in if status = 401
                          then (scr1, logout flt
                                        (emit (Alert ''Session Expired'' ''Please login again'') w3))
                          else (scr1, w3))
          in (scr2\<lparr>profile_loading := False\<rparr>, w2))"

subsection \<open>Login (\<open>LoginScreen\<close>)\<close>

record LoginScreen =
  employeeId :: string
  password :: string
  showPassword :: bool
  login_isLoading :: bool

text \<open>
  \<open>handleLogin\<close> takes \<open>login\<close> from the context, as the source does (\<open>auth?.login\<close>).
\<close>

definition handleLogin ::
    "(string \<Rightarrow> string \<Rightarrow> world \<Rightarrow> bool \<times> world)
      \<Rightarrow> LoginScreen \<times> world \<Rightarrow> LoginScreen \<times> world" where
  "handleLogin auth_login sw =
    (let (scr, w) = sw
     in if trim (employeeId scr) = [] \<or> trim (password scr) = []
        then (scr, emit (Alert ''Error'' ''Please enter both Employee ID and Password'') w)
        else
          let scr1 = scr\<lparr>login_isLoading := True\<rparr>;
              (success, w1) = auth_login (trim (employeeId scr)) (password scr) w;
              scr2 = scr1\<lparr>login_isLoading := False\<rparr>
          in if success then (scr2, w1) else (scr2\<lparr>password := []\<rparr>, w1))"

subsection \<open>Failed writes\<close>

text \<open>A write fails when its \<open>fetch\<close> rejects or its response is not \<open>response.ok\<close>.\<close>

fun failed :: "'a fetch_result \<Rightarrow> bool" where
  "failed NetworkError = True"
| "failed (Response status body) = (\<not> ok status)"

subsection \<open>Sample data\<close>

definition employee1 :: Employee where
  "employee1 =
    \<lparr>emp_id = ''e-1'', emp_employee_id = ''test123'', emp_name = ''Asha Rao'',
     emp_email = ''asha@city.example'', emp_department = ''Sanitation'',
     emp_contact_phone = ''555-0100'', emp_is_active = True,
     emp_created_at = ''2024-01-01T00:00:00Z'',
     emp_performance_stats =
       \<lparr>total_complaints_resolved = 3, total_complaints_assigned = 4,
        resolution_rate = 75, last_activity = ''2024-02-01T00:00:00Z''\<rparr>\<rparr>"

definition complaint1 :: ComplaintDetail where
  "complaint1 =
    \<lparr>cd_id = ''c-7'', cd_title = ''Broken street light'', cd_description = ''Dark corner'',
     cd_citizen_name = ''R. Iyer'', cd_citizen_phone = ''555-0199'', cd_citizen_email = None,
     cd_category = ''electrical'', cd_priority = ''high'', cd_status = ''pending'',
     cd_color_code = ''yellow'', cd_location_address = ''12 Main St'',
     cd_location_coordinates = None, cd_citizen_image = None,
     cd_assigned_employee_id = None, cd_assigned_employee_name = None,
     cd_progress_photos = [], cd_created_at = ''2024-01-05T00:00:00Z'',
     cd_updated_at = ''2024-01-05T00:00:00Z''\<rparr>"

text \<open>A fresh process with an empty store, and a signed-in one.\<close>

definition fresh_world :: world where
  "fresh_world =
    \<lparr>auth = initial_auth,
     storage = \<lparr>auth_token = None, employee_data = None\<rparr>,
     trace = []\<rparr>"

definition signed_in_world :: world where
  "signed_in_world =
    \<lparr>auth = \<lparr>employee = Some employee1, token = Some ''tok1'', isLoading = False\<rparr>,
     storage = \<lparr>auth_token = Some ''tok1'',
                employee_data = Some (Serialized (Some employee1))\<rparr>,
     trace = []\<rparr>"

definition detail_screen1 :: DetailScreen where
  "detail_screen1 =
    \<lparr>route_id = ''c-7'', complaint = Some complaint1, detail_loading = False,
     updating = False, selectedImage = None, showImageModal = False\<rparr>"

text \<open>No call of the store rejects.\<close>

definition no_faults :: faults where
  "no_faults op = False"

text \<open>Exactly the given call of the store rejects.\<close>

definition rejecting :: "storage_op \<Rightarrow> faults" where
  "rejecting bad op = (op = bad)"

section \<open>Runs of the client\<close>

text \<open>
  What can happen to the session and the store, one action at a time. The process may
  restart (the state cells of \<open>AuthProvider\<close> start again, the store survives);
  \<open>AuthProvider\<close> runs \<open>checkAuthStatus\<close>; the login form runs \<open>handleLogin\<close>, which
  calls \<open>login\<close>; \<open>login\<close> and \<open>logout\<close> are also offered to every screen through the
  context; each screen runs its API operations on whatever its own state is. Faults of
  the store and answers of the backend are free in every action. \<open>BACKEND_URL\<close> is
  fixed for the whole run.
\<close>

datatype 'b action =
    Restart
  | CheckAuthStatus faults
  | HandleLogin faults login_response LoginScreen
  | Login faults login_response string string
  | Logout faults
  | FetchComplaints faults "Complaint list fetch_result" bool HomeScreen
  | FetchComplaint faults "ComplaintDetail fetch_result" DetailScreen
  | UpdateComplaintStatus faults "'b fetch_result" "ComplaintDetail fetch_result" string
      DetailScreen
  | UploadProgressPhoto faults "'b fetch_result" "ComplaintDetail fetch_result" string
      DetailScreen
  | FetchProfile faults "ProfileData fetch_result" ProfileScreen







section \<open>Basic facts\<close>

lemmas setters = emit_def setToken_def setEmployee_def setIsLoading_def
  store_auth_token_def store_employee_data_def

lemma alerts_append: "alerts (xs @ ys) = alerts xs @ alerts ys"
  by (induction xs rule: alerts.induct) simp_all

lemma navigations_append: "navigations (xs @ ys) = navigations xs @ navigations ys"
  by (induction xs rule: navigations.induct) simp_all

lemma requests_append: "requests (xs @ ys) = requests xs @ requests ys"
  by (induction xs rule: requests.induct) simp_all

lemma world_simps:
  "auth (emit e w) = auth w"
  "storage (emit e w) = storage w"
  "trace (emit e w) = trace w @ [e]"
  "token (auth (setToken t w)) = t"
  "employee (auth (setToken t w)) = employee (auth w)"
  "isLoading (auth (setToken t w)) = isLoading (auth w)"
  "storage (setToken t w) = storage w"
  "trace (setToken t w) = trace w"
  "token (auth (setEmployee e' w)) = token (auth w)"
  "employee (auth (setEmployee e' w)) = e'"
  "isLoading (auth (setEmployee e' w)) = isLoading (auth w)"
  "storage (setEmployee e' w) = storage w"
  "trace (setEmployee e' w) = trace w"
  "token (auth (setIsLoading b w)) = token (auth w)"
  "employee (auth (setIsLoading b w)) = employee (auth w)"
  "isLoading (auth (setIsLoading b w)) = b"
  "storage (setIsLoading b w) = storage w"
  "trace (setIsLoading b w) = trace w"
  "auth (store_auth_token v w) = auth w"
  "auth_token (storage (store_auth_token v w)) = v"
  "employee_data (storage (store_auth_token v w)) = employee_data (storage w)"
  "trace (store_auth_token v w) = trace w"
  "auth (store_employee_data x w) = auth w"
  "auth_token (storage (store_employee_data x w)) = auth_token (storage w)"
  "employee_data (storage (store_employee_data x w)) = x"
  "trace (store_employee_data x w) = trace w"
  by (simp_all add: setters)

lemma login_catch_simps:
  "fst (login_catch w) = False"
  "auth (snd (login_catch w)) = auth w"
  "storage (snd (login_catch w)) = storage w"
  "trace (snd (login_catch w)) =
     trace w @ [ConsoleError ''Login error:'', Alert ''Error'' ''Failed to connect to server'']"
  by (simp_all add: login_catch_def world_simps)

lemma logout_requests: "requests (trace (logout flt w)) = requests (trace w)"
  by (simp add: logout_def setters Let_def requests_append)

lemma fetchComplaint_requests:
  "requests (trace (snd (fetchComplaint url flt resp (scr, w)))) =
     (if falsy (token (auth w)) \<or> route_id scr = [] then requests (trace w)
      else requests (trace w) @
        [\<lparr>req_method = ''GET'', req_url = template url @ ''/api/complaints/'' @ route_id scr,
          req_headers = bearer (template (token (auth w))), req_body = None\<rparr>])"
  by (simp add: fetchComplaint_def Let_def split_beta world_simps requests_append logout_requests
      split: fetch_result.splits json_result.splits)

lemma fetchComplaint_snapshot:
  "complaint (fst (fetchComplaint url flt resp (scr, w))) =
     (if falsy (token (auth w)) \<or> route_id scr = [] then complaint scr
      else case resp of
             NetworkError \<Rightarrow> complaint scr
           | Response status body \<Rightarrow>
               (case body of
                  NotJSON \<Rightarrow> complaint scr
                | Parsed data \<Rightarrow> if ok status then Some data else complaint scr))"
  by (simp add: fetchComplaint_def Let_def split_beta
      split: fetch_result.splits json_result.splits)

text \<open>What \<open>trim\<close> returns has no white space left at either end.\<close>

lemma dropWhile_rev_dropWhile:
  "dropWhile P (rev (dropWhile P (rev (dropWhile P s)))) = rev (dropWhile P (rev (dropWhile P s)))"
proof (cases "dropWhile P (rev (dropWhile P s)) = []")
  case True
  then show ?thesis by (simp only: rev.simps dropWhile.simps)
next
  case False
  let ?t = "dropWhile P s"
  let ?u = "dropWhile P (rev ?t)"
  have "takeWhile P (rev ?t) @ ?u = rev ?t" by simp
  with False have "last ?u = last (rev ?t)" by (metis last_appendR)
  moreover from False have "?t \<noteq> []" by (metis dropWhile.simps(1) rev.simps(1))
  ultimately have "last ?u = hd ?t" by (simp add: last_rev)
  moreover from \<open>?t \<noteq> []\<close> have "\<not> P (hd ?t)" by (rule hd_dropWhile)
  ultimately have "\<not> P (hd (rev ?u))" using False by (simp add: hd_rev)
  then show ?thesis by (simp add: dropWhile_eq_self_iff)
qed

lemma trim_idem: "trim (trim s) = trim s"
  by (simp add: trim_def dropWhile_rev_dropWhile)

section \<open>Session expiry on 401\<close>

text \<open>
  C1. Every authenticated request (complaint list fetch, complaint detail fetch, profile
  fetch, status update, progress-photo upload) that is answered 401 clears the session as
  \<open>logout\<close> does and shows a session-expired notice before going to the login screen.

  The three fetches do so. The two writes do not: a status update and a photo upload
  answered 401 by a signed-in user with a complaint on screen show their generic error
  alert and nothing else. The session, the store and the screen are as before, and
  there is no navigation.
\<close>

theorem write_401_keeps_session:
  "updateComplaintStatus (Some ''https://api.example'') no_faults
       (Response 401 (NotJSON :: unit json_result)) NetworkError ''resolved''
       (detail_screen1, signed_in_world)
   = (detail_screen1,
      signed_in_world\<lparr>trace :=
        [Fetch \<lparr>req_method = ''PUT'',
                req_url = ''https://api.example/api/complaints/c-7'',
                req_headers = [(''Authorization'', ''Bearer tok1''),
                               (''Content-Type'', ''application/json'')],
                req_body = Some (StatusBody ''resolved'' (Some ''test123'') (Some ''Asha Rao''))\<rparr>,
         Alert ''Error'' ''Failed to update complaint status'']\<rparr>)
   \<and> uploadProgressPhoto (Some ''https://api.example'') no_faults
       (Response 401 (NotJSON :: unit json_result)) NetworkError ''aGVsbG8=''
       (detail_screen1, signed_in_world)
   = (detail_screen1,
      signed_in_world\<lparr>trace :=
        [Fetch \<lparr>req_method = ''POST'',
                req_url = ''https://api.example/api/complaints/c-7/progress-photo'',
                req_headers = [(''Authorization'', ''Bearer tok1''),
                               (''Content-Type'', ''application/json'')],
                req_body = Some (PhotoBody ''c-7'' ''aGVsbG8='' ''Progress update'')\<rparr>,
         Alert ''Error'' ''Failed to upload progress photo'']\<rparr>)"
  by (simp add: updateComplaintStatus_def uploadProgressPhoto_def detail_screen1_def
      signed_in_world_def setters ok_def bearer_def complaint1_def employee1_def Let_def)

section \<open>Token and employee together\<close>




















text \<open>
  The runs matter: a store that this client did not write can break the pair. With a
  stored token and an employee text that is not JSON (or is \<open>null\<close>),
  \<open>checkAuthStatus\<close> sets the token, \<open>JSON.parse\<close> throws (or gives \<open>null\<close>), and the
  session has a token and no employee. No run reaches such a store.
\<close>

lemma restore_on_foreign_store:
  "auth (checkAuthStatus no_faults
           (fresh_world\<lparr>storage := \<lparr>auth_token = Some ''tok1'',
                                      employee_data = Some Malformed\<rparr>\<rparr>))
     = \<lparr>employee = None, token = Some ''tok1'', isLoading = False\<rparr>
   \<and> auth (checkAuthStatus no_faults
           (fresh_world\<lparr>storage := \<lparr>auth_token = Some ''tok1'',
                                      employee_data = Some (Serialized None)\<rparr>\<rparr>))
     = \<lparr>employee = None, token = Some ''tok1'', isLoading = False\<rparr>"
  by (simp add: checkAuthStatus_def fresh_world_def initial_auth_def no_faults_def setters Let_def)

section \<open>Login\<close>

text \<open>
  C3, as amended. \<open>login\<close> returns success exactly when \<open>BACKEND_URL\<close> is configured,
  the response is 2xx, its body parses, and both writes to the persisted store succeed.
  Then the in-memory session and the persisted store both hold the returned token and
  employee (the persisted token equals the in-memory token, and the persisted employee
  text parses back to the in-memory employee), the loading flag is off, and the caller has
  been navigated to the authenticated area.
\<close>

theorem login_success:
  "(fst (login url flt resp eid pw w) \<longleftrightarrow>
      \<not> falsy url \<and> (\<exists>d. resp = Ok2xx (Parsed d))
      \<and> \<not> flt (SetItem ''auth_token'') \<and> \<not> flt (SetItem ''employee_data''))
   \<and> (fst (login url flt resp eid pw w) \<longrightarrow>
        (\<exists>d. resp = Ok2xx (Parsed d)
          \<and> token (auth (snd (login url flt resp eid pw w))) = Some (access_token d)
          \<and> auth_token (storage (snd (login url flt resp eid pw w))) = Some (access_token d)
          \<and> employee (auth (snd (login url flt resp eid pw w))) = Some (data_employee d)
          \<and> map_option JSON_parse (employee_data (storage (snd (login url flt resp eid pw w))))
              = Some (Inr (Some (data_employee d))))
        \<and> isLoading (auth (snd (login url flt resp eid pw w))) = False
        \<and> navigations (trace (snd (login url flt resp eid pw w)))
            = navigations (trace w) @ [RouterReplace ''/(tabs)/home''])"
proof (cases "falsy url")
  case True
  then show ?thesis by (simp add: login_def)
next
  case False
  show ?thesis
  proof (cases resp)
    case NoResponse
    with False show ?thesis
      by (simp add: login_def login_try_def Let_def split_beta login_catch_simps)
  next
    case (Ok2xx body)
    with False show ?thesis
      by (cases body)
         (simp_all add: login_def login_try_def Let_def split_beta world_simps login_catch_simps
            navigations_append JSON_stringify_def)
  next
    case (NotOk body)
    with False show ?thesis
      by (cases body)
         (simp_all add: login_def login_try_def Let_def split_beta login_catch_simps)
  qed
qed

theorem login_success_witness:
  "fst (login (Some ''https://api.example'') no_faults
          (Ok2xx (Parsed (LoginData ''tok1'' employee1))) ''test123'' ''test123'' fresh_world)
   \<and> token (auth (snd (login (Some ''https://api.example'') no_faults
          (Ok2xx (Parsed (LoginData ''tok1'' employee1))) ''test123'' ''test123'' fresh_world)))
       = Some ''tok1''
   \<and> auth_token (storage (snd (login (Some ''https://api.example'') no_faults
          (Ok2xx (Parsed (LoginData ''tok1'' employee1))) ''test123'' ''test123'' fresh_world)))
       = Some ''tok1''
   \<and> employee (auth (snd (login (Some ''https://api.example'') no_faults
          (Ok2xx (Parsed (LoginData ''tok1'' employee1))) ''test123'' ''test123'' fresh_world)))
       = Some employee1
   \<and> navigations (trace (snd (login (Some ''https://api.example'') no_faults
          (Ok2xx (Parsed (LoginData ''tok1'' employee1))) ''test123'' ''test123'' fresh_world)))
       = [RouterReplace ''/(tabs)/home'']"
  using login_success [of "Some ''https://api.example''" no_faults
      "Ok2xx (Parsed (LoginData ''tok1'' employee1))" "''test123''" "''test123''" fresh_world]
  by (simp add: no_faults_def fresh_world_def)

text \<open>
  C3, as stated, fails: a 2xx response with the sample token and employee, where the first
  write to the persisted store rejects. \<open>login\<close> returns failure, the in-memory token is
  the returned one and the persisted token is absent.
\<close>

theorem login_2xx_counterexample:
  "\<not> fst (login (Some ''https://api.example'') (rejecting (SetItem ''auth_token''))
            (Ok2xx (Parsed (LoginData ''tok1'' employee1))) ''test123'' ''test123'' fresh_world)
   \<and> token (auth (snd (login (Some ''https://api.example'') (rejecting (SetItem ''auth_token''))
            (Ok2xx (Parsed (LoginData ''tok1'' employee1))) ''test123'' ''test123'' fresh_world)))
       = Some ''tok1''
   \<and> auth_token (storage (snd (login (Some ''https://api.example'')
            (rejecting (SetItem ''auth_token''))
            (Ok2xx (Parsed (LoginData ''tok1'' employee1))) ''test123'' ''test123'' fresh_world)))
       = None"
  by (simp add: login_def login_try_def Let_def split_beta world_simps login_catch_simps
      fresh_world_def rejecting_def)

text \<open>
  C4. A login attempt answered with a non-2xx response returns failure; token, employee
  and persisted store are as before and the loading flag is off. One alert is shown: the
  server's \<open>detail\<close> when the body has a non-empty one, otherwise a generic message
  (\<open>Invalid credentials\<close>, or \<open>Failed to connect to server\<close> when the body is not JSON).
\<close>

theorem login_rejected:
  assumes "\<not> falsy url"
  shows "\<not> fst (login url flt (NotOk body) eid pw w)
    \<and> token (auth (snd (login url flt (NotOk body) eid pw w))) = token (auth w)
    \<and> employee (auth (snd (login url flt (NotOk body) eid pw w))) = employee (auth w)
    \<and> storage (snd (login url flt (NotOk body) eid pw w)) = storage w
    \<and> isLoading (auth (snd (login url flt (NotOk body) eid pw w))) = False
    \<and> alerts (trace (snd (login url flt (NotOk body) eid pw w))) = alerts (trace w) @
        [case body of
           NotJSON \<Rightarrow> (''Error'', ''Failed to connect to server'')
         | Parsed errorData \<Rightarrow>
             (case detail errorData of
                None \<Rightarrow> (''Login Failed'', ''Invalid credentials'')
              | Some message \<Rightarrow>
                  if message = [] then (''Login Failed'', ''Invalid credentials'')
                  else (''Login Failed'', message))]"
  using assms
  by (cases body)
     (simp_all add: login_def login_try_def Let_def split_beta world_simps login_catch_simps
        alerts_append split: option.splits)

theorem login_rejected_witness:
  "\<not> falsy (Some ''https://api.example'')
   \<and> \<not> fst (login (Some ''https://api.example'') no_faults
              (NotOk (Parsed (ErrorData (Some ''Invalid credentials''))))
              ''test123'' ''test123'' fresh_world)
   \<and> auth (snd (login (Some ''https://api.example'') no_faults
              (NotOk (Parsed (ErrorData (Some ''Invalid credentials''))))
              ''test123'' ''test123'' fresh_world))
       = \<lparr>employee = None, token = None, isLoading = False\<rparr>
   \<and> storage (snd (login (Some ''https://api.example'') no_faults
              (NotOk (Parsed (ErrorData (Some ''Invalid credentials''))))
              ''test123'' ''test123'' fresh_world))
       = \<lparr>auth_token = None, employee_data = None\<rparr>
   \<and> alerts (trace (snd (login (Some ''https://api.example'') no_faults
              (NotOk (Parsed (ErrorData (Some ''Invalid credentials''))))
              ''test123'' ''test123'' fresh_world)))
       = [(''Login Failed'', ''Invalid credentials'')]"
proof -
  have configured: "\<not> falsy (Some ''https://api.example'')" by simp
  from login_rejected [OF configured, of no_faults
      "Parsed (ErrorData (Some ''Invalid credentials''))" "''test123''" "''test123''" fresh_world]
  show ?thesis
    by (cases "auth (snd (login (Some ''https://api.example'') no_faults
              (NotOk (Parsed (ErrorData (Some ''Invalid credentials''))))
              ''test123'' ''test123'' fresh_world))")
       (simp add: fresh_world_def initial_auth_def)
qed

section \<open>Logout\<close>

text \<open>
  C5, as amended. When both removals from the persisted store succeed, \<open>logout\<close> leaves
  both persisted entries and both in-memory fields absent and navigates to the
  unauthenticated entry point. When a removal fails, the failure is only logged: the
  in-memory session stays as it was and there is no navigation.
\<close>

theorem logout_outcomes:
  "(\<not> flt (RemoveItem ''auth_token'') \<and> \<not> flt (RemoveItem ''employee_data'') \<longrightarrow>
      storage (logout flt w) = \<lparr>auth_token = None, employee_data = None\<rparr>
      \<and> token (auth (logout flt w)) = None \<and> employee (auth (logout flt w)) = None
      \<and> trace (logout flt w) = trace w @ [RouterReplace ''/''])
   \<and> (flt (RemoveItem ''auth_token'') \<or> flt (RemoveItem ''employee_data'') \<longrightarrow>
      auth (logout flt w) = auth w
      \<and> trace (logout flt w) = trace w @ [ConsoleError ''Logout error:''])"
  by (simp add: logout_def setters Let_def)

theorem logout_outcomes_witness:
  "\<not> no_faults (RemoveItem ''auth_token'') \<and> \<not> no_faults (RemoveItem ''employee_data'')
   \<and> storage (logout no_faults signed_in_world) = \<lparr>auth_token = None, employee_data = None\<rparr>
   \<and> token (auth (logout no_faults signed_in_world)) = None
   \<and> employee (auth (logout no_faults signed_in_world)) = None
   \<and> trace (logout no_faults signed_in_world) = [RouterReplace ''/'']
   \<and> (rejecting (RemoveItem ''employee_data'')) (RemoveItem ''employee_data'')
   \<and> auth (logout (rejecting (RemoveItem ''employee_data'')) signed_in_world)
       = auth signed_in_world
   \<and> trace (logout (rejecting (RemoveItem ''employee_data'')) signed_in_world)
       = [ConsoleError ''Logout error:'']"
  using logout_outcomes [of no_faults signed_in_world]
    logout_outcomes [of "rejecting (RemoveItem ''employee_data'')" signed_in_world]
  by (simp add: no_faults_def rejecting_def signed_in_world_def)

text \<open>
  C5, as stated, fails: the first removal rejects for a signed-in user. The in-memory
  token and employee are still there, and the only event is the logged error.
\<close>

theorem logout_counterexample:
  "token (auth (logout (rejecting (RemoveItem ''auth_token'')) signed_in_world)) = Some ''tok1''
   \<and> employee (auth (logout (rejecting (RemoveItem ''auth_token'')) signed_in_world))
       = Some employee1
   \<and> trace (logout (rejecting (RemoveItem ''auth_token'')) signed_in_world)
       = [ConsoleError ''Logout error:'']"
  by (simp add: logout_def signed_in_world_def setters Let_def rejecting_def)

section \<open>Requests without a token\<close>

text \<open>
  C6. With no session token (absent or empty), each of the five API operations returns
  at once: the screen, the session, the store and the trace are as before, so no
  request is issued.
\<close>

theorem no_token_no_request:
  assumes "falsy (token (auth w))"
  shows "fetchComplaints url flt r1 isRefresh (home, w) = (home, w)
    \<and> fetchComplaint url flt r2 (det, w) = (det, w)
    \<and> fetchProfile url flt r3 (prof, w) = (prof, w)
    \<and> updateComplaintStatus url flt r4 r2 newStatus (det, w) = (det, w)
    \<and> uploadProgressPhoto url flt r5 r2 img (det, w) = (det, w)"
  using assms
  by (simp add: fetchComplaints_def fetchComplaint_def fetchProfile_def
      updateComplaintStatus_def uploadProgressPhoto_def split: option.splits)

theorem no_token_no_request_witness:
  "falsy (token (auth fresh_world))
   \<and> fetchComplaints (Some ''https://api.example'') no_faults (Response 200 (Parsed [])) False
       (\<lparr>complaints = [], home_loading = True, refreshing = False\<rparr>, fresh_world)
       = (\<lparr>complaints = [], home_loading = True, refreshing = False\<rparr>, fresh_world)
   \<and> fetchComplaint (Some ''https://api.example'') no_faults (Response 200 (Parsed complaint1))
       (detail_screen1, fresh_world) = (detail_screen1, fresh_world)
   \<and> fetchProfile (Some ''https://api.example'') no_faults (Response 401 NotJSON)
       (\<lparr>profileData = None, profile_loading = True\<rparr>, fresh_world)
       = (\<lparr>profileData = None, profile_loading = True\<rparr>, fresh_world)
   \<and> updateComplaintStatus (Some ''https://api.example'') no_faults
       (Response 200 (Parsed ())) (Response 200 (Parsed complaint1)) ''resolved''
       (detail_screen1, fresh_world) = (detail_screen1, fresh_world)
   \<and> uploadProgressPhoto (Some ''https://api.example'') no_faults
       (Response 200 (Parsed ())) (Response 200 (Parsed complaint1)) ''aGVsbG8=''
       (detail_screen1, fresh_world) = (detail_screen1, fresh_world)"
proof -
  have absent: "falsy (token (auth fresh_world))"
    by (simp add: fresh_world_def initial_auth_def)
  from absent no_token_no_request [OF absent, of "Some ''https://api.example''" no_faults
      "Response 200 (Parsed [])" False "\<lparr>complaints = [], home_loading = True, refreshing = False\<rparr>"
      "Response 200 (Parsed complaint1)" detail_screen1
      "Response 401 NotJSON" "\<lparr>profileData = None, profile_loading = True\<rparr>"
      "Response 200 (Parsed ())" "''resolved''" "Response 200 (Parsed ())" "''aGVsbG8=''"]
  show ?thesis by blast
qed

section \<open>Status update and photo upload\<close>

text \<open>
  C7. \<open>updateComplaintStatus\<close>, for a signed-in user with a complaint on screen, sends
  one \<open>PUT\<close> whose body holds the new status and the current employee's identifier and
  name. On a 2xx response it issues a \<open>GET\<close> for the complaint, and the snapshot shown
  afterwards is the one that \<open>GET\<close> returned (or the previous one when the \<open>GET\<close> fails):
  the body of the \<open>PUT\<close> response is not used. The route parameter of an open detail
  screen is not empty.
\<close>

theorem update_sends_assignment_then_refetches:
  assumes "complaint scr = Some c" and "token (auth w) = Some t" and "t \<noteq> []"
    and "route_id scr \<noteq> []" and "ok status"
  shows "requests (trace (snd (updateComplaintStatus url flt (Response status body) refetch
                                  newStatus (scr, w)))) =
           requests (trace w) @
             [\<lparr>req_method = ''PUT'', req_url = template url @ ''/api/complaints/'' @ cd_id c,
               req_headers = bearer t,
               req_body = Some (StatusBody newStatus
                                  (map_option emp_employee_id (employee (auth w)))
                                  (map_option emp_name (employee (auth w))))\<rparr>,
              \<lparr>req_method = ''GET'', req_url = template url @ ''/api/complaints/'' @ route_id scr,
               req_headers = bearer t, req_body = None\<rparr>]
    \<and> complaint (fst (updateComplaintStatus url flt (Response status body) refetch
                         newStatus (scr, w))) =
        (case refetch of
           NetworkError \<Rightarrow> Some c
         | Response status' body' \<Rightarrow>
             (case body' of
                NotJSON \<Rightarrow> Some c
              | Parsed data \<Rightarrow> if ok status' then Some data else Some c))"
  using assms
  by (simp add: updateComplaintStatus_def Let_def split_beta world_simps requests_append
      fetchComplaint_requests fetchComplaint_snapshot
      split: fetch_result.splits json_result.splits)

theorem update_sends_assignment_then_refetches_witness:
  "complaint detail_screen1 = Some complaint1 \<and> token (auth signed_in_world) = Some ''tok1''
   \<and> ''tok1'' \<noteq> [] \<and> route_id detail_screen1 \<noteq> [] \<and> ok 200
   \<and> requests (trace (snd (updateComplaintStatus (Some ''https://api.example'') no_faults
        (Response 200 (Parsed (complaint1\<lparr>cd_status := ''active''\<rparr>)))
        (Response 200 (Parsed (complaint1\<lparr>cd_status := ''resolved''\<rparr>)))
        ''resolved'' (detail_screen1, signed_in_world)))) =
       [\<lparr>req_method = ''PUT'', req_url = ''https://api.example/api/complaints/c-7'',
         req_headers = bearer ''tok1'',
         req_body = Some (StatusBody ''resolved'' (Some ''test123'') (Some ''Asha Rao''))\<rparr>,
        \<lparr>req_method = ''GET'', req_url = ''https://api.example/api/complaints/c-7'',
         req_headers = bearer ''tok1'', req_body = None\<rparr>]
   \<and> complaint (fst (updateComplaintStatus (Some ''https://api.example'') no_faults
        (Response 200 (Parsed (complaint1\<lparr>cd_status := ''active''\<rparr>)))
        (Response 200 (Parsed (complaint1\<lparr>cd_status := ''resolved''\<rparr>)))
        ''resolved'' (detail_screen1, signed_in_world))) =
       Some (complaint1\<lparr>cd_status := ''resolved''\<rparr>)"
proof -
  have h1: "complaint detail_screen1 = Some complaint1" by (simp add: detail_screen1_def)
  have h2: "token (auth signed_in_world) = Some ''tok1''" by (simp add: signed_in_world_def)
  have h3: "''tok1'' \<noteq> []" by simp
  have h4: "route_id detail_screen1 \<noteq> []" by (simp add: detail_screen1_def)
  have h5: "ok 200" by (simp add: ok_def)
  from update_sends_assignment_then_refetches [OF h1 h2 h3 h4 h5,
      of "Some ''https://api.example''" no_faults
         "Parsed (complaint1\<lparr>cd_status := ''active''\<rparr>)"
         "Response 200 (Parsed (complaint1\<lparr>cd_status := ''resolved''\<rparr>))" "''resolved''"]
  show ?thesis
    using h1 h2 h4 h5
    by (simp add: signed_in_world_def detail_screen1_def complaint1_def employee1_def)
qed

text \<open>
  C8. When a status update or a photo upload fails (no response, or a response that is
  not 2xx), the complaint snapshot on screen is the one shown before, and, whenever the
  request was issued at all, exactly one alert titled \<open>Error\<close> is added.
\<close>

theorem failed_write_keeps_snapshot:
  assumes "failed resp"
  shows "complaint (fst (updateComplaintStatus url flt resp refetch newStatus (scr, w)))
           = complaint scr
    \<and> complaint (fst (uploadProgressPhoto url flt resp refetch img (scr, w))) = complaint scr
    \<and> (complaint scr \<noteq> None \<and> \<not> falsy (token (auth w)) \<longrightarrow>
         alerts (trace (snd (updateComplaintStatus url flt resp refetch newStatus (scr, w))))
           = alerts (trace w) @
               [(''Error'', if resp = NetworkError then ''Failed to update complaint''
                            else ''Failed to update complaint status'')]
         \<and> alerts (trace (snd (uploadProgressPhoto url flt resp refetch img (scr, w))))
           = alerts (trace w) @
               [(''Error'', if resp = NetworkError then ''Failed to upload photo''
                            else ''Failed to upload progress photo'')])"
  using assms
  by (cases resp)
     (auto simp add: updateComplaintStatus_def uploadProgressPhoto_def Let_def
        world_simps alerts_append split: option.splits)

theorem failed_write_keeps_snapshot_witness:
  "failed (Response 500 (NotJSON :: unit json_result))
   \<and> complaint detail_screen1 \<noteq> None \<and> \<not> falsy (token (auth signed_in_world))
   \<and> complaint (fst (updateComplaintStatus (Some ''https://api.example'') no_faults
        (Response 500 (NotJSON :: unit json_result)) NetworkError ''resolved''
        (detail_screen1, signed_in_world))) = Some complaint1
   \<and> complaint (fst (uploadProgressPhoto (Some ''https://api.example'') no_faults
        (Response 500 (NotJSON :: unit json_result)) NetworkError ''aGVsbG8=''
        (detail_screen1, signed_in_world))) = Some complaint1
   \<and> alerts (trace (snd (updateComplaintStatus (Some ''https://api.example'') no_faults
        (Response 500 (NotJSON :: unit json_result)) NetworkError ''resolved''
        (detail_screen1, signed_in_world)))) = [(''Error'', ''Failed to update complaint status'')]
   \<and> alerts (trace (snd (uploadProgressPhoto (Some ''https://api.example'') no_faults
        (Response 500 (NotJSON :: unit json_result)) NetworkError ''aGVsbG8=''
        (detail_screen1, signed_in_world)))) = [(''Error'', ''Failed to upload progress photo'')]"
proof -
  have h: "failed (Response 500 (NotJSON :: unit json_result))" by (simp add: ok_def)
  have g: "complaint detail_screen1 \<noteq> None \<and> \<not> falsy (token (auth signed_in_world))"
    by (simp add: detail_screen1_def signed_in_world_def)
  from failed_write_keeps_snapshot [OF h, of "Some ''https://api.example''" no_faults
      NetworkError "''resolved''" detail_screen1 signed_in_world "''aGVsbG8=''"]
  show ?thesis
    using h g by (simp add: detail_screen1_def signed_in_world_def)
qed

section \<open>Login form\<close>

text \<open>
  C9, as amended. When the employee id or the password is empty after trimming,
  \<open>handleLogin\<close> shows a validation alert and does not call \<open>login\<close>. Otherwise it calls
  \<open>login\<close> once, with the trimmed employee id (which is not empty, and trimming it again
  changes nothing) and with the password as typed, which is not empty after trimming.
\<close>

theorem handleLogin_arguments:
  "(trim (employeeId scr) = [] \<or> trim (password scr) = [] \<longrightarrow>
      handleLogin auth_login (scr, w) =
        (scr, emit (Alert ''Error'' ''Please enter both Employee ID and Password'') w))
   \<and> (trim (employeeId scr) \<noteq> [] \<and> trim (password scr) \<noteq> [] \<longrightarrow>
      handleLogin auth_login (scr, w) =
        (if fst (auth_login (trim (employeeId scr)) (password scr) w)
         then scr\<lparr>login_isLoading := False\<rparr>
         else scr\<lparr>login_isLoading := False, password := []\<rparr>,
         snd (auth_login (trim (employeeId scr)) (password scr) w))
      \<and> trim (trim (employeeId scr)) = trim (employeeId scr))"
  by (simp add: handleLogin_def Let_def split_beta trim_idem)

theorem handleLogin_arguments_witness:
  "trim (employeeId \<lparr>employeeId = '' test123'', password = ''secret'', showPassword = False,
                     login_isLoading = False\<rparr>) \<noteq> []
   \<and> trim (password \<lparr>employeeId = '' test123'', password = ''secret'', showPassword = False,
                      login_isLoading = False\<rparr>) \<noteq> []
   \<and> handleLogin (login (Some ''https://api.example'') no_faults NoResponse)
       (\<lparr>employeeId = '' test123'', password = ''secret'', showPassword = False,
         login_isLoading = False\<rparr>, fresh_world)
     = (\<lparr>employeeId = '' test123'', password = [], showPassword = False,
         login_isLoading = False\<rparr>,
        snd (login (Some ''https://api.example'') no_faults NoResponse ''test123'' ''secret''
               fresh_world))
   \<and> trim (employeeId \<lparr>employeeId = ''   '', password = ''secret'', showPassword = False,
                       login_isLoading = False\<rparr>) = []
   \<and> handleLogin (login (Some ''https://api.example'') no_faults NoResponse)
       (\<lparr>employeeId = ''   '', password = ''secret'', showPassword = False,
         login_isLoading = False\<rparr>, fresh_world)
     = (\<lparr>employeeId = ''   '', password = ''secret'', showPassword = False,
         login_isLoading = False\<rparr>,
        emit (Alert ''Error'' ''Please enter both Employee ID and Password'') fresh_world)"
proof -
  have t1: "trim '' test123'' = ''test123''" by (simp add: trim_def is_ws_def)
  have t2: "trim ''secret'' = ''secret''" by (simp add: trim_def is_ws_def)
  have t3: "trim ''   '' = []" by (simp add: trim_def is_ws_def)
  have failure: "\<not> fst (login (Some ''https://api.example'') no_faults NoResponse
                          ''test123'' ''secret'' fresh_world)"
    by (simp add: login_def login_try_def Let_def split_beta login_catch_simps)
  from handleLogin_arguments [of "\<lparr>employeeId = '' test123'', password = ''secret'',
        showPassword = False, login_isLoading = False\<rparr>"
      "login (Some ''https://api.example'') no_faults NoResponse" fresh_world]
    handleLogin_arguments [of "\<lparr>employeeId = ''   '', password = ''secret'',
        showPassword = False, login_isLoading = False\<rparr>"
      "login (Some ''https://api.example'') no_faults NoResponse" fresh_world]
  show ?thesis
    using t1 t2 t3 failure by simp
qed

text \<open>
  C9, as stated, fails: with the password \<open>'' pw ''\<close> typed between two spaces, the login
  request carries the password with its spaces, not the trimmed \<open>''pw''\<close>.
\<close>

theorem handleLogin_counterexample:
  "requests (trace (snd (handleLogin (login (Some ''https://api.example'') no_faults NoResponse)
       (\<lparr>employeeId = ''test123'', password = '' pw '', showPassword = False,
         login_isLoading = False\<rparr>, fresh_world)))) =
     [\<lparr>req_method = ''POST'', req_url = ''https://api.example/api/auth/login'',
       req_headers = [(''Content-Type'', ''application/json'')],
       req_body = Some (LoginBody ''test123'' '' pw '')\<rparr>]
   \<and> trim '' pw '' = ''pw''"
  by (simp add: handleLogin_def Let_def split_beta trim_def is_ws_def login_def login_try_def
      login_catch_simps world_simps fresh_world_def requests_append)

section \<open>Restore with half a session\<close>

text \<open>
  C10. At startup, when exactly one of the two persisted entries is present,
  \<open>checkAuthStatus\<close> loads neither: token and employee stay absent (and the loading flag
  is turned off).
\<close>

theorem restore_needs_both_entries:
  assumes "auth w = initial_auth"
    and "(auth_token (storage w) = None) \<noteq> (employee_data (storage w) = None)"
  shows "auth (checkAuthStatus flt w) = \<lparr>employee = None, token = None, isLoading = False\<rparr>"
  using assms
  by (auto simp add: checkAuthStatus_def initial_auth_def setters Let_def
      split: option.splits sum.splits)

theorem restore_needs_both_entries_witness:
  "auth (fresh_world\<lparr>storage := \<lparr>auth_token = Some ''tok1'', employee_data = None\<rparr>\<rparr>)
     = initial_auth
   \<and> (auth_token (storage (fresh_world\<lparr>storage :=
          \<lparr>auth_token = Some ''tok1'', employee_data = None\<rparr>\<rparr>)) = None)
      \<noteq> (employee_data (storage (fresh_world\<lparr>storage :=
          \<lparr>auth_token = Some ''tok1'', employee_data = None\<rparr>\<rparr>)) = None)
   \<and> auth (checkAuthStatus no_faults
        (fresh_world\<lparr>storage := \<lparr>auth_token = Some ''tok1'', employee_data = None\<rparr>\<rparr>))
     = \<lparr>employee = None, token = None, isLoading = False\<rparr>"
proof -
  have h1: "auth (fresh_world\<lparr>storage := \<lparr>auth_token = Some ''tok1'', employee_data = None\<rparr>\<rparr>)
              = initial_auth"
    by (simp add: fresh_world_def)
  have h2: "(auth_token (storage (fresh_world\<lparr>storage :=
                \<lparr>auth_token = Some ''tok1'', employee_data = None\<rparr>\<rparr>)) = None)
            \<noteq> (employee_data (storage (fresh_world\<lparr>storage :=
                \<lparr>auth_token = Some ''tok1'', employee_data = None\<rparr>\<rparr>)) = None)"
    by simp
  from h1 h2 restore_needs_both_entries [OF h1 h2, of no_faults]
  show ?thesis by blast
qed

end
